theory Spec2Isabelle
  imports Main
begin

section \<open>BackgroundShellDisplay: data model\<close>

text \<open>
  The component of \<^verbatim>\<open>packages/cli/src/ui/components/BackgroundShellDisplay.tsx\<close>.
  Process identifiers, widths and indices are JavaScript numbers that only ever hold
  integers here; they are modelled as \<^typ>\<open>int\<close>. Strings are \<^typ>\<open>string\<close>, and
  \<^verbatim>\<open>.length\<close> is \<^const>\<open>length\<close>.
\<close>

datatype ShellStatus = running | exited

text \<open>
  A session object. React compares the dependencies of an effect with \<^verbatim>\<open>Object.is\<close>:
  numbers and booleans by value, objects by identity. \<open>objectId\<close> is the identity of the
  object; the other fields are its contents when it is read, and an object mutated in
  place keeps its identity.
\<close>

record BackgroundShell =
  objectId :: nat
  pid :: int
  command :: string
  status :: ShellStatus
  exitCode :: "int option"

text \<open>
  \<^verbatim>\<open>Map<number, BackgroundShell>\<close>: an insertion-ordered mapping, kept as the list of its
  entries in iteration order. A JavaScript \<^verbatim>\<open>Map\<close> never holds a key twice.
\<close>

type_synonym ShellMap = "(int \<times> BackgroundShell) list"

definition Map_get :: "ShellMap \<Rightarrow> int \<Rightarrow> BackgroundShell option" where
  "Map_get m k = map_of m k"

definition Map_has :: "ShellMap \<Rightarrow> int \<Rightarrow> bool" where
  "Map_has m k = (k \<in> set (map fst m))"

definition Map_keys :: "ShellMap \<Rightarrow> int list" where
  "Map_keys m = map fst m"

definition Map_values :: "ShellMap \<Rightarrow> BackgroundShell list" where
  "Map_values m = map snd m"

definition Map_size :: "ShellMap \<Rightarrow> int" where
  "Map_size m = int (length m)"

text \<open>
  The registry as the data model describes it: identifiers are unique, and every session
  is stored under its own process id.
\<close>

definition registry_wf :: "ShellMap \<Rightarrow> bool" where
  "registry_wf m = (distinct (map fst m) \<and> list_all (\<lambda>(k, sh). pid sh = k) m)"

text \<open>
  The props of one render. \<open>shells\<close> holds the entries of the \<^verbatim>\<open>Map\<close> as the render reads
  them, \<open>shellsObjectId\<close> the identity of the \<^verbatim>\<open>Map\<close> object it was given: two renders
  with the same \<open>shellsObjectId\<close> and different \<open>shells\<close> saw one \<^verbatim>\<open>Map\<close> that was mutated in
  place between them, two renders with different \<open>shellsObjectId\<close> saw two \<^verbatim>\<open>Map\<close> objects.
\<close>

record BackgroundShellDisplayProps =
  shells :: ShellMap
  shellsObjectId :: nat
  activePid :: int
  width :: int
  height :: int
  isFocused :: bool
  isListOpenProp :: bool

text \<open>A decoded key event: the fields of \<^verbatim>\<open>Key\<close> the component reads.\<close>

record Key =
  name :: string
  ctrl :: bool
  sequence :: string

text \<open>
  The component also mirrors the active shell's output buffer into a state variable;
  nothing below reads it, and it is left out.

  Everything the component asks of its collaborators:
  \<^verbatim>\<open>ShellExecutionService.resizePty\<close>, \<^verbatim>\<open>ShellExecutionService.writeToPty\<close> and the three
  callbacks of \<^verbatim>\<open>useUIActions()\<close>.
\<close>

datatype call =
    ResizePty int int int
  | WriteToPty int string
  | DismissBackgroundShell int
  | SetActiveBackgroundShellPid int
  | SetIsBackgroundShellListOpen bool

definition CONTENT_PADDING_X :: int where
  "CONTENT_PADDING_X = 1"

definition RIGHT_TEXT :: string where
  "RIGHT_TEXT = ''Ctrl+B Hide | Ctrl+K Kill''"

definition TAB_DISPLAY_HORIZONTAL_PADDING :: int where
  "TAB_DISPLAY_HORIZONTAL_PADDING = 4"

text \<open>\<^verbatim>\<open>const activeShell = shells.get(activePid)\<close>\<close>

definition activeShell :: "BackgroundShellDisplayProps \<Rightarrow> BackgroundShell option" where
  "activeShell p = Map_get (shells p) (activePid p)"

section \<open>JavaScript primitives\<close>

text \<open>
  \<^verbatim>\<open>a % b\<close> on integers: the remainder of the truncating division, with the sign of the
  dividend. For \<^verbatim>\<open>b = 0\<close> JavaScript yields \<^verbatim>\<open>NaN\<close>; the handler below only divides by
  the number of registry keys after it has found the active shell among them, so the
  divisor is at least one wherever the model applies this function.
\<close>

definition js_rem :: "int \<Rightarrow> int \<Rightarrow> int" where
  "js_rem a b = sgn a * (\<bar>a\<bar> mod \<bar>b\<bar>)"

text \<open>\<^verbatim>\<open>xs[i]\<close>: \<^verbatim>\<open>undefined\<close> (here \<^const>\<open>None\<close>) outside the array.\<close>

definition js_index :: "'a list \<Rightarrow> int \<Rightarrow> 'a option" where
  "js_index xs i = (if 0 \<le> i \<and> i < int (length xs) then Some (xs ! nat i) else None)"

text \<open>\<^verbatim>\<open>xs.indexOf(x)\<close>: the first position of \<^verbatim>\<open>x\<close>, or \<^verbatim>\<open>-1\<close>.\<close>

fun indexOf :: "'a list \<Rightarrow> 'a \<Rightarrow> int" where
  "indexOf [] x = - 1"
| "indexOf (y # ys) x =
     (if y = x then 0
      else (let r = indexOf ys x in if r = - 1 then - 1 else r + 1))"

text \<open>\<^verbatim>\<open>s.split(' ')[0]\<close>: the part of \<^verbatim>\<open>s\<close> before its first space character.\<close>

definition split_space_first :: "string \<Rightarrow> string" where
  "split_space_first s = takeWhile (\<lambda>c. c \<noteq> CHR '' '') s"

text \<open>The decimal numeral of a non-negative integer, as template literals print it.\<close>

definition digit_char :: "nat \<Rightarrow> char" where
  "digit_char d = ''0123456789'' ! d"

function string_of_nat :: "nat \<Rightarrow> string" where
  "string_of_nat n =
     (if n < 10 then [digit_char n]
      else string_of_nat (n div 10) @ [digit_char (n mod 10)])"
  by pat_completeness auto
termination
  by (relation "measure (\<lambda>n. n)") auto

section \<open>Effects\<close>

text \<open>
  React's \<^verbatim>\<open>useEffect(body, deps)\<close>: the body runs after the first render (no previous
  dependencies) and after every later render whose dependencies differ from those of
  the render before, compared one by one with \<^verbatim>\<open>Object.is\<close>. The dependency tuples below
  hold numbers and booleans as they are and objects by their identity, so that equality
  of tuples is that comparison.
\<close>

fun useEffect_fires :: "'d option \<Rightarrow> 'd \<Rightarrow> bool" where
  "useEffect_fires None d = True"
| "useEffect_fires (Some d') d = (d \<noteq> d')"

text \<open>The calls an effect issues after each render of a sequence of renders.\<close>

fun useEffect_trace ::
  "('p \<Rightarrow> 'd) \<Rightarrow> ('p \<Rightarrow> call list) \<Rightarrow> 'd option \<Rightarrow> 'p list \<Rightarrow> call list list" where
  "useEffect_trace deps body prev [] = []"
| "useEffect_trace deps body prev (p # ps) =
     (if useEffect_fires prev (deps p) then body p else [])
       # useEffect_trace deps body (Some (deps p)) ps"

text \<open>The resize effect, with dependencies \<^verbatim>\<open>[activePid, width, height, shells]\<close>.\<close>

definition resize_effect :: "BackgroundShellDisplayProps \<Rightarrow> call list" where
  "resize_effect p =
     (if \<not> Map_has (shells p) (activePid p) then []
      else
        (let ptyWidth =
               max 1 (width p - TAB_DISPLAY_HORIZONTAL_PADDING div 2 - CONTENT_PADDING_X * 2);
             ptyHeight = max 1 (height p - 3)
         in [ResizePty (activePid p) ptyWidth ptyHeight]))"

definition resize_deps :: "BackgroundShellDisplayProps \<Rightarrow> int \<times> int \<times> int \<times> nat" where
  "resize_deps p = (activePid p, width p, height p, shellsObjectId p)"

text \<open>
  The effect that synchronises the list selection with the active shell, with
  dependencies \<^verbatim>\<open>[isListOpenProp, activeShell, shells]\<close>. It yields the selection index
  after the effect, given the index before it.
\<close>

definition sync_effect :: "BackgroundShellDisplayProps \<Rightarrow> int \<Rightarrow> int" where
  "sync_effect p listSelectionIndex =
     (if isListOpenProp p then
        (case activeShell p of
           None \<Rightarrow> listSelectionIndex
         | Some sh \<Rightarrow>
             (let shellPids = Map_keys (shells p);
                  index = indexOf shellPids (pid sh)
              in if index \<noteq> - 1 then index else listSelectionIndex))
      else listSelectionIndex)"

definition sync_deps ::
  "BackgroundShellDisplayProps \<Rightarrow> bool \<times> nat option \<times> nat" where
  "sync_deps p = (isListOpenProp p, map_option objectId (activeShell p), shellsObjectId p)"

definition sync_step ::
  "BackgroundShellDisplayProps option \<Rightarrow> BackgroundShellDisplayProps \<Rightarrow> int \<Rightarrow> int" where
  "sync_step prev p listSelectionIndex =
     (if useEffect_fires (map_option sync_deps prev) (sync_deps p)
      then sync_effect p listSelectionIndex else listSelectionIndex)"

text \<open>The effect with the empty dependency list.\<close>

definition mount_effect :: "BackgroundShellDisplayProps \<Rightarrow> call list" where
  "mount_effect p =
     (if Map_size (shells p) = 1 then [SetIsBackgroundShellListOpen False]
      else if Map_size (shells p) > 1 then [SetIsBackgroundShellListOpen True]
      else [])"

definition mount_deps :: "BackgroundShellDisplayProps \<Rightarrow> unit" where
  "mount_deps p = ()"

section \<open>The key handler\<close>

text \<open>
  The two commit branches (Enter and Ctrl+O) share their body. \<^verbatim>\<open>if (selectedPid)\<close> is
  false for \<^verbatim>\<open>undefined\<close> and for the number zero.
\<close>

definition commit_selection :: "int list \<Rightarrow> int \<Rightarrow> call list" where
  "commit_selection shellPids listSelectionIndex =
     (case js_index shellPids listSelectionIndex of
        None \<Rightarrow> []
      | Some selectedPid \<Rightarrow>
          if selectedPid \<noteq> 0 then [SetActiveBackgroundShellPid selectedPid] else [])
     @ [SetIsBackgroundShellListOpen False]"

text \<open>
  The callback given to \<^verbatim>\<open>useKeypress\<close>. \<^verbatim>\<open>keyMatchers[Command.TOGGLE_BACKGROUND_SHELL]\<close>
  lives in another module and is the parameter \<open>toggleBackgroundShell\<close>. The result is
  the selection index after the key and the calls issued, in order.
\<close>

definition handleKeypress ::
  "(Key \<Rightarrow> bool) \<Rightarrow> BackgroundShellDisplayProps \<Rightarrow> int \<Rightarrow> Key \<Rightarrow> int \<times> call list" where
  "handleKeypress toggleBackgroundShell p listSelectionIndex k =
     (case activeShell p of
        None \<Rightarrow> (listSelectionIndex, [])
      | Some sh \<Rightarrow>
          if isListOpenProp p then
            (let shellPids = Map_keys (shells p); n = int (length shellPids) in
             if name k = ''up'' then (js_rem (listSelectionIndex - 1 + n) n, [])
             else if name k = ''down'' then (js_rem (listSelectionIndex + 1) n, [])
             else if name k = ''return'' \<or> name k = ''enter''
               then (listSelectionIndex, commit_selection shellPids listSelectionIndex)
             else if name k = ''escape''
               then (listSelectionIndex, [SetIsBackgroundShellListOpen False])
             else if ctrl k \<and> name k = ''o''
               then (listSelectionIndex, commit_selection shellPids listSelectionIndex)
             else (listSelectionIndex, []))
          else if toggleBackgroundShell k then (listSelectionIndex, [])
          else if ctrl k \<and> name k = ''k''
            then (listSelectionIndex, [DismissBackgroundShell (pid sh)])
          else if ctrl k \<and> name k = ''o''
            then (listSelectionIndex, [SetIsBackgroundShellListOpen True])
          else if name k = ''return''
            then (listSelectionIndex, [WriteToPty (pid sh) [CHR 0x0D]])
          else if name k = ''backspace''
            then (listSelectionIndex, [WriteToPty (pid sh) [CHR 0x08]])
          else if sequence k \<noteq> []
            then (listSelectionIndex, [WriteToPty (pid sh) (sequence k)])
          else (listSelectionIndex, []))"

text \<open>\<^verbatim>\<open>useKeypress(handler, { isActive: isFocused && !!activeShell })\<close>\<close>

definition isActive :: "BackgroundShellDisplayProps \<Rightarrow> bool" where
  "isActive p = (isFocused p \<and> activeShell p \<noteq> None)"

definition useKeypress ::
  "(Key \<Rightarrow> bool) \<Rightarrow> BackgroundShellDisplayProps \<Rightarrow> int \<Rightarrow> Key \<Rightarrow> int \<times> call list" where
  "useKeypress toggleBackgroundShell p listSelectionIndex k =
     (if isActive p then handleKeypress toggleBackgroundShell p listSelectionIndex k
      else (listSelectionIndex, []))"

section \<open>Tab layout\<close>

text \<open>
  A rendered \<^verbatim>\<open><Text>\<close> element of the tab row: its React key, its style properties and
  its children, one string for each expression between the tags.
\<close>

datatype ElemKey = PidKey int | NameKey string

record TextElem =
  elemKey :: ElemKey
  color :: string
  backgroundColor :: "string option"
  bold :: bool
  children :: "string list"

text \<open>The label of the shell at array index \<open>i\<close>.\<close>

definition tab_label :: "nat \<Rightarrow> BackgroundShell \<Rightarrow> string" where
  "tab_label i shell =
     '' '' @ string_of_nat (i + 1) @ '': '' @ split_space_first (command shell) @ '' ''"

definition shell_tab :: "int \<Rightarrow> BackgroundShell \<Rightarrow> string \<Rightarrow> TextElem" where
  "shell_tab activePid' shell label =
     (let isActive' = (pid shell = activePid');
          isExited = (status shell = exited)
      in \<lparr>elemKey = PidKey (pid shell),
          color = (if isActive' then ''white'' else if isExited then ''red'' else ''gray''),
          backgroundColor =
            (if isActive' then Some (if isExited then ''red'' else ''blue'') else None),
          bold = isActive',
          children = [label, if isExited then ''(Exited)'' else []]\<rparr>)"

definition overflow_tab :: TextElem where
  "overflow_tab =
     \<lparr>elemKey = NameKey ''overflow'', color = ''yellow'', backgroundColor = None,
      bold = True, children = ['' ... (Ctrl+O) '']\<rparr>"

definition pidTextEstimate :: int where
  "pidTextEstimate = 25"

definition availableWidth :: "int \<Rightarrow> int" where
  "availableWidth w =
     w - TAB_DISPLAY_HORIZONTAL_PADDING - int (length RIGHT_TEXT) - pidTextEstimate"

text \<open>
  The \<^verbatim>\<open>for\<close> loop of \<^verbatim>\<open>renderTabs\<close>: the shells from index \<open>i\<close> on, the width used so far
  and the tabs pushed so far; the result is the tabs and the overflow flag at the end
  of the loop.
\<close>

fun renderTabs_loop ::
  "int \<Rightarrow> int \<Rightarrow> BackgroundShell list \<Rightarrow> nat \<Rightarrow> int \<Rightarrow> TextElem list \<Rightarrow> TextElem list \<times> bool"
  where
  "renderTabs_loop activePid' avail [] i currentWidth tabs = (tabs, False)"
| "renderTabs_loop activePid' avail (shell # rest) i currentWidth tabs =
     (let label = tab_label i shell;
          labelWidth = int (length label)
      in if currentWidth + labelWidth > avail then (tabs, True)
         else renderTabs_loop activePid' avail rest (Suc i) (currentWidth + labelWidth)
                (tabs @ [shell_tab activePid' shell label]))"

definition renderTabs_layout :: "BackgroundShellDisplayProps \<Rightarrow> TextElem list \<times> bool" where
  "renderTabs_layout p =
     renderTabs_loop (activePid p) (availableWidth (width p)) (Map_values (shells p)) 0 0 []"

definition renderTabs :: "BackgroundShellDisplayProps \<Rightarrow> TextElem list" where
  "renderTabs p =
     (let (tabs, overflow) = renderTabs_layout p
      in if overflow then tabs @ [overflow_tab] else tabs)"

text \<open>
  The widths of the labels and the tabs of a list of shells whose first element has
  array index \<open>i\<close>; with them the label budget "fits the first \<open>N\<close> labels" reads
  \<open>sum_list (take N (label_widths_from 0 shellList)) \<le> availableWidth w\<close>.
\<close>

definition label_widths_from :: "nat \<Rightarrow> BackgroundShell list \<Rightarrow> int list" where
  "label_widths_from i shellList =
     map (\<lambda>(j, shell). int (length (tab_label j shell))) (enumerate i shellList)"

definition shell_tabs_from :: "int \<Rightarrow> nat \<Rightarrow> BackgroundShell list \<Rightarrow> TextElem list" where
  "shell_tabs_from activePid' i shellList =
     map (\<lambda>(j, shell). shell_tab activePid' shell (tab_label j shell)) (enumerate i shellList)"

section \<open>The specification's wording, for comparison\<close>

text \<open>
  The specification describes the command part of a label as the "first
  whitespace-delimited token of the command". That phrase, read by itself: skip leading
  white space, then take characters up to the next white space.
\<close>

definition is_whitespace :: "char \<Rightarrow> bool" where
  "is_whitespace c =
     (c = CHR '' '' \<or> c = CHR 0x09 \<or> c = CHR 0x0A \<or> c = CHR 0x0B \<or> c = CHR 0x0C
      \<or> c = CHR 0x0D)"

definition spec_first_whitespace_token :: "string \<Rightarrow> string" where
  "spec_first_whitespace_token s =
     takeWhile (\<lambda>c. \<not> is_whitespace c) (dropWhile is_whitespace s)"

section \<open>Concrete sessions, panels and keys\<close>

text \<open>
  Modelled from the spec: \<^verbatim>\<open>keyMatchers[Command.TOGGLE_BACKGROUND_SHELL]\<close> is defined in the
  module \<^verbatim>\<open>keyMatchers.ts\<close>, outside this component. The specification calls it the
  designated shortcut that toggles the panel's visibility, and the hint text
  \<^const>\<open>RIGHT_TEXT\<close> advertises it as Ctrl+B. It only instantiates the parameter
  \<open>toggleBackgroundShell\<close> where a theorem is evaluated at a concrete key.
\<close>

definition toggle_ctrl_b :: "Key \<Rightarrow> bool" where
  "toggle_ctrl_b k = (ctrl k \<and> name k = ''b'')"

definition ex_build :: BackgroundShell where
  "ex_build =
     \<lparr>objectId = 1, pid = 1, command = ''npm run build'', status = running, exitCode = None\<rparr>"

definition ex_watch :: BackgroundShell where
  "ex_watch =
     \<lparr>objectId = 2, pid = 2, command = ''cargo watch'', status = exited, exitCode = Some 0\<rparr>"

definition ex_tabbed :: BackgroundShell where
  "ex_tabbed =
     \<lparr>objectId = 3, pid = 3, command = ''ls'' @ [CHR 0x09] @ ''-la'', status = running,
      exitCode = None\<rparr>"

text \<open>
  A focused panel of 24 rows. Each registry below is a \<^verbatim>\<open>Map\<close> object of its own, told apart
  by its number of entries; a \<^verbatim>\<open>Map\<close> mutated in place is written as a record update of
  \<open>shellsObjectId\<close>.
\<close>

definition ex_panel :: "ShellMap \<Rightarrow> int \<Rightarrow> int \<Rightarrow> bool \<Rightarrow> BackgroundShellDisplayProps" where
  "ex_panel m a w isOpen =
     \<lparr>shells = m, shellsObjectId = length m, activePid = a, width = w, height = 24,
      isFocused = True, isListOpenProp = isOpen\<rparr>"

definition ex_one :: ShellMap where
  "ex_one = [(1, ex_build)]"

definition ex_two :: ShellMap where
  "ex_two = [(1, ex_build), (2, ex_watch)]"

definition ex_three :: ShellMap where
  "ex_three = [(1, ex_build), (2, ex_watch), (3, ex_tabbed)]"

text \<open>
  Six renders of a panel over two sessions: as mounted, widened to 100 columns, made 30
  rows high, given a new \<^verbatim>\<open>Map\<close> object with the same entries, rendered again with
  nothing changed, and with a stale active identifier.
\<close>

definition ex_renders :: "BackgroundShellDisplayProps list" where
  "ex_renders =
     [ex_panel ex_two 1 80 False,
      ex_panel ex_two 1 100 False,
      (ex_panel ex_two 1 100 False)\<lparr>height := 30\<rparr>,
      (ex_panel ex_two 1 100 False)\<lparr>height := 30, shellsObjectId := 9\<rparr>,
      (ex_panel ex_two 1 100 False)\<lparr>height := 30, shellsObjectId := 9\<rparr>,
      (ex_panel ex_two 7 100 False)\<lparr>height := 30, shellsObjectId := 9\<rparr>]"

definition key_return :: Key where
  "key_return = \<lparr>name = ''return'', ctrl = False, sequence = [CHR 0x0D]\<rparr>"

definition key_enter :: Key where
  "key_enter = \<lparr>name = ''enter'', ctrl = False, sequence = [CHR 0x0A]\<rparr>"

definition key_up :: Key where
  "key_up = \<lparr>name = ''up'', ctrl = False, sequence = [CHR 0x1B] @ ''[A''\<rparr>"

definition key_down :: Key where
  "key_down = \<lparr>name = ''down'', ctrl = False, sequence = [CHR 0x1B] @ ''[B''\<rparr>"

definition key_escape :: Key where
  "key_escape = \<lparr>name = ''escape'', ctrl = False, sequence = [CHR 0x1B]\<rparr>"

definition key_ctrl_k :: Key where
  "key_ctrl_k = \<lparr>name = ''k'', ctrl = True, sequence = [CHR 0x0B]\<rparr>"

definition key_x :: Key where
  "key_x = \<lparr>name = ''x'', ctrl = False, sequence = ''x''\<rparr>"

lemmas ex_defs =
  ex_build_def ex_watch_def ex_tabbed_def ex_panel_def ex_one_def ex_two_def ex_three_def
  key_return_def key_enter_def key_up_def key_down_def key_escape_def key_ctrl_k_def
  key_x_def toggle_ctrl_b_def

lemmas Map_defs = Map_get_def Map_has_def Map_keys_def Map_values_def Map_size_def

section \<open>Auxiliary facts\<close>

lemma activeShell_nonempty: "activeShell p = Some sh \<Longrightarrow> shells p \<noteq> []"
  by (auto simp: activeShell_def Map_get_def)

lemma js_rem_nonneg: "0 \<le> a \<Longrightarrow> js_rem a b = a mod \<bar>b\<bar>"
  by (cases "a = 0") (simp_all add: js_rem_def)

lemma indexOf_present:
  "x \<in> set xs \<Longrightarrow>
     0 \<le> indexOf xs x \<and> indexOf xs x < int (length xs) \<and> xs ! nat (indexOf xs x) = x"
proof (induction xs)
  case Nil
  then show ?case by simp
next
  case (Cons y ys)
  show ?case
  proof (cases "y = x")
    case True
    then show ?thesis by simp
  next
    case False
    with Cons.prems have "x \<in> set ys" by simp
    from Cons.IH [OF this] False show ?thesis
      by (auto simp: Let_def nat_add_distrib)
  qed
qed

lemma registry_wf_get:
  "registry_wf m \<Longrightarrow> Map_get m k = Some sh \<Longrightarrow> pid sh = k \<and> k \<in> set (Map_keys m)"
  unfolding registry_wf_def Map_get_def Map_keys_def
  by (auto simp: list_all_iff dest!: map_of_SomeD intro: rev_image_eqI)

lemma useEffect_trace_Suc:
  "Suc i < length ps \<Longrightarrow>
     useEffect_trace deps body prev ps ! Suc i =
       (if deps (ps ! Suc i) \<noteq> deps (ps ! i) then body (ps ! Suc i) else [])"
proof (induction ps arbitrary: prev i)
  case Nil
  then show ?case by simp
next
  case (Cons p ps)
  show ?case
  proof (cases i)
    case 0
    with Cons.prems obtain q qs where "ps = q # qs" by (cases ps) auto
    with 0 show ?thesis by simp
  next
    case (Suc j)
    with Cons.prems have "Suc j < length ps" by simp
    from Cons.IH [OF this] Suc show ?thesis by simp
  qed
qed

lemma useEffect_trace_unit:
  fixes deps :: "'p \<Rightarrow> unit"
  shows "useEffect_trace deps body (Some u) ps = replicate (length ps) []"
  by (induction ps arbitrary: u) auto

section \<open>Auto-open and auto-close of the picker\<close>

text \<open>
  C1, as amended. The reconciliation between registry size and picker runs after the
  first render only, whatever the later renders bring: with exactly one shell at mount
  it asks to close the picker, with more than one to open it, with none it does
  nothing; after every later render of any sequence it issues no call, so no change of
  the registry's size reopens or closes the picker.
\<close>

theorem mount_effect_only_on_mount:
  "useEffect_trace mount_deps mount_effect None (p # ps) =
     (if Map_size (shells p) = 1 then [SetIsBackgroundShellListOpen False]
      else if 1 < Map_size (shells p) then [SetIsBackgroundShellListOpen True]
      else []) # replicate (length ps) []"
  by (simp add: useEffect_trace_unit mount_effect_def)

text \<open>Mounted over two shells, then one, then two again: one call, at mount.\<close>

theorem mount_effect_only_on_mount_witness:
  "useEffect_trace mount_deps mount_effect None
     [ex_panel ex_two 1 80 False, ex_panel ex_one 1 80 True, ex_panel ex_two 1 80 False]
   = [[SetIsBackgroundShellListOpen True], [], []]"
  using mount_effect_only_on_mount
    [of "ex_panel ex_two 1 80 False" "[ex_panel ex_one 1 80 True, ex_panel ex_two 1 80 False]"]
  by (simp add: ex_defs Map_size_def)

text \<open>
  The registry grows from one shell to two between the first and the second render,
  and the second render issues nothing: the picker is not opened at the transition.
\<close>

theorem mount_effect_transition_counterexample:
  "Map_size (shells (ex_panel ex_one 1 80 False)) = 1
   \<and> 1 < Map_size (shells (ex_panel ex_two 1 80 False))
   \<and> useEffect_trace mount_deps mount_effect None
        [ex_panel ex_one 1 80 False, ex_panel ex_two 1 80 False] ! 1 = []"
  by (simp add: ex_defs Map_size_def mount_effect_def mount_deps_def)

section \<open>Synchronising the selection when the picker opens\<close>

text \<open>
  C2, as amended. When the picker goes from closed to open between two renders, the
  synchronising effect runs. If the active identifier is in a well-formed registry, the
  selection index becomes its position in registry order. If the active identifier is
  not in the registry, the index is left as it was; it is not reset to zero.
\<close>

theorem sync_on_open:
  assumes "\<not> isListOpenProp prev" and "isListOpenProp p"
  shows "(activeShell p \<noteq> None \<and> registry_wf (shells p) \<longrightarrow>
            0 \<le> sync_step (Some prev) p idx
          \<and> sync_step (Some prev) p idx < Map_size (shells p)
          \<and> Map_keys (shells p) ! nat (sync_step (Some prev) p idx) = activePid p)
       \<and> (activeShell p = None \<longrightarrow> sync_step (Some prev) p idx = idx)"
proof -
  from assms have fires: "sync_step (Some prev) p idx = sync_effect p idx"
    by (auto simp: sync_step_def sync_deps_def)
  have absent: "sync_effect p idx = idx" if "activeShell p = None"
    using that by (simp add: sync_effect_def)
  {
    assume a: "activeShell p \<noteq> None" and wf: "registry_wf (shells p)"
    from a obtain sh where s: "activeShell p = Some sh" by auto
    from registry_wf_get [OF wf s [unfolded activeShell_def]]
    have k: "pid sh = activePid p" "activePid p \<in> set (Map_keys (shells p))" by simp_all
    note io = indexOf_present [OF k(2)]
    from io have "sync_effect p idx = indexOf (Map_keys (shells p)) (activePid p)"
      using assms s k by (simp add: sync_effect_def Let_def)
    with io have "0 \<le> sync_effect p idx \<and> sync_effect p idx < Map_size (shells p)
        \<and> Map_keys (shells p) ! nat (sync_effect p idx) = activePid p"
      by (simp add: Map_size_def Map_keys_def)
  }
  with fires absent show ?thesis by auto
qed

text \<open>
  Three shells with the third active: opening the picker moves the selection from 0 to
  2. With the stale identifier 7 active, opening leaves the selection at 0.
\<close>

theorem sync_on_open_witness:
  "\<not> isListOpenProp (ex_panel ex_three 3 80 False)
   \<and> isListOpenProp (ex_panel ex_three 3 80 True)
   \<and> activeShell (ex_panel ex_three 3 80 True) \<noteq> None
   \<and> registry_wf (shells (ex_panel ex_three 3 80 True))
   \<and> sync_step (Some (ex_panel ex_three 3 80 False)) (ex_panel ex_three 3 80 True) 0 = 2
   \<and> Map_keys (shells (ex_panel ex_three 3 80 True)) ! 2 = 3
   \<and> activeShell (ex_panel ex_three 7 80 True) = None
   \<and> sync_step (Some (ex_panel ex_three 7 80 False)) (ex_panel ex_three 7 80 True) 0 = 0"
  using sync_on_open [of "ex_panel ex_three 3 80 False" "ex_panel ex_three 3 80 True" 0]
    sync_on_open [of "ex_panel ex_three 7 80 False" "ex_panel ex_three 7 80 True" 0]
  by (simp add: ex_defs Map_defs activeShell_def registry_wf_def sync_step_def sync_deps_def
      sync_effect_def)

text \<open>
  The user moves the selection down once over two shells and leaves the picker; the
  active identifier then goes stale (7 is no shell of the registry) and the picker is
  opened again. The selection index is still 1, not 0.
\<close>

theorem sync_fallback_counterexample:
  "fst (handleKeypress toggle_ctrl_b (ex_panel ex_two 1 80 True) 0 key_down) = 1
   \<and> \<not> isListOpenProp (ex_panel ex_two 7 80 False)
   \<and> isListOpenProp (ex_panel ex_two 7 80 True)
   \<and> \<not> Map_has (shells (ex_panel ex_two 7 80 True)) (activePid (ex_panel ex_two 7 80 True))
   \<and> sync_step (Some (ex_panel ex_two 7 80 False)) (ex_panel ex_two 7 80 True) 1 = 1"
  by (simp add: ex_defs Map_defs activeShell_def sync_step_def sync_deps_def sync_effect_def
      handleKeypress_def js_rem_def)

section \<open>When the key handler runs\<close>

text \<open>
  C3, as amended. Some key has an effect exactly when the panel holds focus and the
  active identifier names a shell of the registry, which implies that the registry is
  not empty. In every other configuration (no focus, an empty registry, or an active
  identifier that the registry does not hold) every key leaves the selection index as
  it is and issues no call. The shortcut that dismisses a shell is assumed not to be
  the shortcut that toggles the panel.
\<close>

theorem router_runs_iff:
  assumes "\<not> toggleBackgroundShell k0" and "ctrl k0" and "name k0 = ''k''"
  shows "((\<exists>k. useKeypress toggleBackgroundShell p idx k \<noteq> (idx, []))
            \<longleftrightarrow> (isFocused p \<and> activeShell p \<noteq> None))
       \<and> (activeShell p \<noteq> None \<longrightarrow> shells p \<noteq> [])"
proof -
  have off: "useKeypress toggleBackgroundShell p idx k = (idx, [])"
    if "\<not> (isFocused p \<and> activeShell p \<noteq> None)" for k
    using that by (auto simp: useKeypress_def isActive_def)
  have on: "\<exists>k. useKeypress toggleBackgroundShell p idx k \<noteq> (idx, [])"
    if f: "isFocused p" and s: "activeShell p = Some sh" for sh
  proof (cases "isListOpenProp p")
    case True
    then have "useKeypress toggleBackgroundShell p idx
        \<lparr>name = ''escape'', ctrl = False, sequence = []\<rparr> \<noteq> (idx, [])"
      using f s by (simp add: useKeypress_def isActive_def handleKeypress_def)
    then show ?thesis by blast
  next
    case False
    then have "useKeypress toggleBackgroundShell p idx k0 \<noteq> (idx, [])"
      using f s assms by (simp add: useKeypress_def isActive_def handleKeypress_def)
    then show ?thesis by blast
  qed
  have runs: "(\<exists>k. useKeypress toggleBackgroundShell p idx k \<noteq> (idx, []))
      \<longleftrightarrow> (isFocused p \<and> activeShell p \<noteq> None)"
  proof
    assume "\<exists>k. useKeypress toggleBackgroundShell p idx k \<noteq> (idx, [])"
    with off show "isFocused p \<and> activeShell p \<noteq> None" by blast
  next
    assume "isFocused p \<and> activeShell p \<noteq> None"
    with on show "\<exists>k. useKeypress toggleBackgroundShell p idx k \<noteq> (idx, [])" by auto
  qed
  have "shells p \<noteq> []" if "activeShell p \<noteq> None"
    using that by (auto dest: activeShell_nonempty)
  with runs show ?thesis by blast
qed

text \<open>A focused panel whose active shell is in the registry: some key has an effect.\<close>

theorem router_runs_iff_witness:
  "\<not> toggle_ctrl_b key_ctrl_k \<and> ctrl key_ctrl_k \<and> name key_ctrl_k = ''k''
   \<and> isFocused (ex_panel ex_two 2 80 False)
   \<and> activeShell (ex_panel ex_two 2 80 False) \<noteq> None
   \<and> (\<exists>k. useKeypress toggle_ctrl_b (ex_panel ex_two 2 80 False) 0 k \<noteq> (0, []))"
  using router_runs_iff [of toggle_ctrl_b key_ctrl_k "ex_panel ex_two 2 80 False" 0]
  by (simp add: ex_defs Map_defs activeShell_def)

text \<open>
  A focused panel over a registry of one shell, that shell active and the picker closed:
  Return is forwarded, so not every key is without effect there. And a focused panel
  over the same registry whose active identifier is stale: Escape does not close the
  open picker, although a shell exists.
\<close>

theorem router_runs_iff_counterexample:
  "isFocused (ex_panel ex_one 1 80 False) \<and> shells (ex_panel ex_one 1 80 False) \<noteq> []
   \<and> useKeypress toggle_ctrl_b (ex_panel ex_one 1 80 False) 0 key_return
       = (0, [WriteToPty 1 [CHR 0x0D]])
   \<and> isFocused (ex_panel ex_one 7 80 True) \<and> shells (ex_panel ex_one 7 80 True) \<noteq> []
   \<and> useKeypress toggle_ctrl_b (ex_panel ex_one 7 80 True) 0 key_escape = (0, [])
   \<and> useKeypress toggle_ctrl_b (ex_panel ex_one 1 80 True) 0 key_escape
       = (0, [SetIsBackgroundShellListOpen False])"
  by (simp add: ex_defs Map_defs activeShell_def useKeypress_def isActive_def
      handleKeypress_def)

section \<open>Forwarding Return\<close>

text \<open>
  C4, as amended. With the picker closed and the active shell in the registry, a key
  named \<^verbatim>\<open>return\<close> that is not the panel-toggle shortcut causes exactly one write, of the
  carriage-return byte, to the active shell's pseudo-terminal, and leaves the selection
  index alone; no other call is issued. A key named \<^verbatim>\<open>enter\<close> is not turned into a
  carriage return: its raw sequence is forwarded as it is, and nothing is written when
  it has none.
\<close>

theorem closed_return_forwards_cr:
  assumes "activeShell p = Some sh" and "\<not> isListOpenProp p"
    and "\<not> toggleBackgroundShell k"
  shows "(name k = ''return'' \<longrightarrow>
            handleKeypress toggleBackgroundShell p idx k
              = (idx, [WriteToPty (pid sh) [CHR 0x0D]]))
       \<and> (name k = ''enter'' \<longrightarrow>
            handleKeypress toggleBackgroundShell p idx k
              = (idx, if sequence k \<noteq> [] then [WriteToPty (pid sh) (sequence k)] else []))"
  using assms by (simp add: handleKeypress_def)

theorem closed_return_forwards_cr_witness:
  "activeShell (ex_panel ex_two 2 80 False) = Some ex_watch
   \<and> \<not> isListOpenProp (ex_panel ex_two 2 80 False)
   \<and> \<not> toggle_ctrl_b key_return \<and> name key_return = ''return''
   \<and> handleKeypress toggle_ctrl_b (ex_panel ex_two 2 80 False) 0 key_return
       = (0, [WriteToPty 2 [CHR 0x0D]])"
  using closed_return_forwards_cr
    [of "ex_panel ex_two 2 80 False" ex_watch toggle_ctrl_b key_return 0]
  by (simp add: ex_defs Map_defs activeShell_def)

text \<open>
  The key named \<^verbatim>\<open>enter\<close> (a line feed) with the picker closed: one write, of the line
  feed, not of the carriage return.
\<close>

theorem closed_enter_counterexample:
  "activeShell (ex_panel ex_one 1 80 False) = Some ex_build
   \<and> \<not> isListOpenProp (ex_panel ex_one 1 80 False)
   \<and> name key_enter = ''enter''
   \<and> handleKeypress toggle_ctrl_b (ex_panel ex_one 1 80 False) 0 key_enter
       = (0, [WriteToPty 1 [CHR 0x0A]])
   \<and> [CHR 0x0A] \<noteq> [CHR 0x0D]"
  by (simp add: ex_defs Map_defs activeShell_def handleKeypress_def)

section \<open>Tab layout: labels\<close>

lemma label_widths_from_nonneg: "0 \<le> sum_list (take n (label_widths_from i xs))"
  by (rule sum_list_nonneg) (auto simp: label_widths_from_def dest!: in_set_takeD)

lemma label_widths_from_Cons:
  "label_widths_from i (x # xs) = int (length (tab_label i x)) # label_widths_from (Suc i) xs"
  by (simp add: label_widths_from_def)

lemma shell_tabs_from_Cons:
  "shell_tabs_from a i (x # xs) = shell_tab a x (tab_label i x) # shell_tabs_from a (Suc i) xs"
  by (simp add: shell_tabs_from_def)

lemma shell_tabs_from_nth:
  "j < length xs \<Longrightarrow>
     shell_tabs_from a i xs ! j = shell_tab a (xs ! j) (tab_label (i + j) (xs ! j))"
  by (simp add: shell_tabs_from_def nth_enumerate_eq)

lemma renderTabs_loop_prefix:
  "\<exists>N\<le>length rest.
     renderTabs_loop a avail rest i cw tabs
       = (tabs @ shell_tabs_from a i (take N rest), N < length rest)"
proof (induction rest arbitrary: i cw tabs)
  case Nil
  then show ?case by (simp add: shell_tabs_from_def)
next
  case (Cons x xs)
  let ?w = "int (length (tab_label i x))"
  show ?case
  proof (cases "avail < cw + ?w")
    case True
    then have "renderTabs_loop a avail (x # xs) i cw tabs
        = (tabs @ shell_tabs_from a i (take 0 (x # xs)), 0 < length (x # xs))"
      by (simp add: shell_tabs_from_def Let_def)
    then show ?thesis by blast
  next
    case False
    from Cons.IH [of "Suc i" "cw + ?w" "tabs @ [shell_tab a x (tab_label i x)]"]
    obtain N where N: "N \<le> length xs"
      and run: "renderTabs_loop a avail xs (Suc i) (cw + ?w)
                  (tabs @ [shell_tab a x (tab_label i x)])
                = ((tabs @ [shell_tab a x (tab_label i x)])
                     @ shell_tabs_from a (Suc i) (take N xs), N < length xs)"
      by blast
    from False run have "renderTabs_loop a avail (x # xs) i cw tabs
        = (tabs @ shell_tabs_from a i (take (Suc N) (x # xs)), Suc N < length (x # xs))"
      by (simp add: Let_def shell_tabs_from_Cons)
    with N show ?thesis by (intro exI [of _ "Suc N"]) simp
  qed
qed

lemma takeWhile_not_whitespace:
  "\<forall>c\<in>set (takeWhile (\<lambda>c. c \<noteq> CHR '' '') s). \<not> is_whitespace c \<Longrightarrow>
     takeWhile (\<lambda>c. \<not> is_whitespace c) s = takeWhile (\<lambda>c. c \<noteq> CHR '' '') s"
proof (induction s)
  case Nil
  then show ?case by simp
next
  case (Cons x xs)
  show ?case
  proof (cases "x = CHR '' ''")
    case True
    then show ?thesis by (simp add: is_whitespace_def)
  next
    case False
    with Cons.prems have nw: "\<not> is_whitespace x"
      and rest: "\<forall>c\<in>set (takeWhile (\<lambda>c. c \<noteq> CHR '' '') xs). \<not> is_whitespace c"
      by simp_all
    from Cons.IH [OF rest] nw False show ?thesis by simp
  qed
qed

lemma split_space_first_is_token:
  assumes "\<forall>c\<in>set (split_space_first s). \<not> is_whitespace c"
    and "s \<noteq> [] \<longrightarrow> hd s \<noteq> CHR '' ''"
  shows "split_space_first s = spec_first_whitespace_token s"
proof (cases s)
  case Nil
  then show ?thesis by (simp add: split_space_first_def spec_first_whitespace_token_def)
next
  case (Cons x xs)
  with assms(2) have "x \<noteq> CHR '' ''" by simp
  with assms(1) Cons have "\<not> is_whitespace x" by (simp add: split_space_first_def)
  with Cons have "dropWhile is_whitespace s = s" by simp
  with assms(1) show ?thesis
    by (simp add: split_space_first_def spec_first_whitespace_token_def
        takeWhile_not_whitespace)
qed

text \<open>
  C5, as amended. Every tab that the layout emits for a session, the sessions walked in
  registry order, has as its label a space, the 1-based position, a colon and a space,
  the command up to its first space character, and a space. That part of the command
  is its first whitespace-delimited token whenever the command does not begin with a
  space and the part holds no other white space. For the registry of the single running
  session 1 with command \<^verbatim>\<open>npm run build\<close>, active, at width 80, the layout is the one
  tab with label \<^verbatim>\<open>" 1: npm "\<close> and no overflow.
\<close>

theorem tab_label_form:
  "(j < length (fst (renderTabs_layout p)) \<longrightarrow>
      j < length (Map_values (shells p))
    \<and> hd (children (fst (renderTabs_layout p) ! j))
        = '' '' @ string_of_nat (j + 1) @ '': ''
            @ takeWhile (\<lambda>c. c \<noteq> CHR '' '') (command (Map_values (shells p) ! j)) @ '' ''
    \<and> ((\<forall>c\<in>set (split_space_first (command (Map_values (shells p) ! j))).
           \<not> is_whitespace c)
        \<and> (command (Map_values (shells p) ! j) \<noteq> []
             \<longrightarrow> hd (command (Map_values (shells p) ! j)) \<noteq> CHR '' '')
        \<longrightarrow> hd (children (fst (renderTabs_layout p) ! j))
              = '' '' @ string_of_nat (j + 1) @ '': ''
                  @ spec_first_whitespace_token (command (Map_values (shells p) ! j))
                  @ '' ''))
   \<and> renderTabs_layout (ex_panel ex_one 1 80 False)
       = ([\<lparr>elemKey = PidKey 1, color = ''white'', backgroundColor = Some ''blue'',
            bold = True, children = ['' 1: npm '', []]\<rparr>], False)
   \<and> renderTabs (ex_panel ex_one 1 80 False)
       = [\<lparr>elemKey = PidKey 1, color = ''white'', backgroundColor = Some ''blue'',
            bold = True, children = ['' 1: npm '', []]\<rparr>]"
proof -
  let ?xs = "Map_values (shells p)"
  have general: "j < length ?xs
      \<and> hd (children (fst (renderTabs_layout p) ! j)) = tab_label j (?xs ! j)"
    if j: "j < length (fst (renderTabs_layout p))"
  proof -
    from renderTabs_loop_prefix [of ?xs "activePid p" "availableWidth (width p)" 0 0 "[]"]
    obtain N where N: "N \<le> length ?xs"
      and run: "renderTabs_layout p
                  = (shell_tabs_from (activePid p) 0 (take N ?xs), N < length ?xs)"
      by (auto simp: renderTabs_layout_def)
    from run j have jN: "j < N" by (simp add: shell_tabs_from_def)
    with N have jl: "j < length ?xs" by simp
    from jN N have "fst (renderTabs_layout p) ! j
        = shell_tab (activePid p) (?xs ! j) (tab_label j (?xs ! j))"
      by (simp add: run shell_tabs_from_nth)
    then show ?thesis using jl by (simp add: shell_tab_def Let_def)
  qed
  have scenario: "renderTabs_layout (ex_panel ex_one 1 80 False)
       = ([\<lparr>elemKey = PidKey 1, color = ''white'', backgroundColor = Some ''blue'',
            bold = True, children = ['' 1: npm '', []]\<rparr>], False)"
    by (simp add: renderTabs_layout_def ex_defs Map_values_def availableWidth_def tab_label_def
        split_space_first_def TAB_DISPLAY_HORIZONTAL_PADDING_def RIGHT_TEXT_def
        pidTextEstimate_def digit_char_def shell_tab_def)
  then have rendered: "renderTabs (ex_panel ex_one 1 80 False)
       = [\<lparr>elemKey = PidKey 1, color = ''white'', backgroundColor = Some ''blue'',
            bold = True, children = ['' 1: npm '', []]\<rparr>]"
    by (simp add: renderTabs_def)
  have form: "tab_label j (?xs ! j)
      = '' '' @ string_of_nat (j + 1) @ '': ''
          @ takeWhile (\<lambda>c. c \<noteq> CHR '' '') (command (?xs ! j)) @ '' ''"
    by (simp add: tab_label_def split_space_first_def)
  have token: "tab_label j (?xs ! j)
      = '' '' @ string_of_nat (j + 1) @ '': ''
          @ spec_first_whitespace_token (command (?xs ! j)) @ '' ''"
    if "\<forall>c\<in>set (split_space_first (command (?xs ! j))). \<not> is_whitespace c"
      and "command (?xs ! j) \<noteq> [] \<longrightarrow> hd (command (?xs ! j)) \<noteq> CHR '' ''"
    using split_space_first_is_token [OF that] by (simp add: tab_label_def)
  have main: "j < length (fst (renderTabs_layout p)) \<longrightarrow>
        j < length ?xs
      \<and> hd (children (fst (renderTabs_layout p) ! j))
          = '' '' @ string_of_nat (j + 1) @ '': ''
              @ takeWhile (\<lambda>c. c \<noteq> CHR '' '') (command (?xs ! j)) @ '' ''
      \<and> ((\<forall>c\<in>set (split_space_first (command (?xs ! j))). \<not> is_whitespace c)
          \<and> (command (?xs ! j) \<noteq> [] \<longrightarrow> hd (command (?xs ! j)) \<noteq> CHR '' '')
          \<longrightarrow> hd (children (fst (renderTabs_layout p) ! j))
                = '' '' @ string_of_nat (j + 1) @ '': ''
                    @ spec_first_whitespace_token (command (?xs ! j)) @ '' '')"
  proof (intro conjI impI)
    assume j: "j < length (fst (renderTabs_layout p))"
    from general [OF j] show "j < length ?xs" by (rule conjunct1)
    from general [OF j] have lab:
      "hd (children (fst (renderTabs_layout p) ! j)) = tab_label j (?xs ! j)"
      by (rule conjunct2)
    show "hd (children (fst (renderTabs_layout p) ! j))
          = '' '' @ string_of_nat (j + 1) @ '': ''
              @ takeWhile (\<lambda>c. c \<noteq> CHR '' '') (command (?xs ! j)) @ '' ''"
      by (rule trans [OF lab form])
    assume c: "(\<forall>c\<in>set (split_space_first (command (?xs ! j))). \<not> is_whitespace c)
          \<and> (command (?xs ! j) \<noteq> [] \<longrightarrow> hd (command (?xs ! j)) \<noteq> CHR '' '')"
    show "hd (children (fst (renderTabs_layout p) ! j))
                = '' '' @ string_of_nat (j + 1) @ '': ''
                    @ spec_first_whitespace_token (command (?xs ! j)) @ '' ''"
      by (rule trans [OF lab token [OF conjunct1 [OF c] conjunct2 [OF c]]])
  qed
  show ?thesis
    by (intro conjI) (rule main, rule scenario, rule rendered)
qed

text \<open>
  Two sessions at width 80: the second tab is that of the exited session 2, labelled
  with position 2 and the first word of its command.
\<close>

theorem tab_label_form_witness:
  "1 < length (fst (renderTabs_layout (ex_panel ex_two 1 80 False)))
   \<and> hd (children (fst (renderTabs_layout (ex_panel ex_two 1 80 False)) ! 1)) = '' 2: cargo ''
   \<and> spec_first_whitespace_token (command ex_watch) = ''cargo''"
proof -
  have run: "renderTabs_layout (ex_panel ex_two 1 80 False)
      = ([shell_tab 1 ex_build '' 1: npm '', shell_tab 1 ex_watch '' 2: cargo ''], False)"
    by (simp add: renderTabs_layout_def ex_defs Map_values_def availableWidth_def tab_label_def
        split_space_first_def TAB_DISPLAY_HORIZONTAL_PADDING_def RIGHT_TEXT_def
        pidTextEstimate_def digit_char_def)
  have tok: "spec_first_whitespace_token (command ex_watch) = ''cargo''"
    by (simp add: spec_first_whitespace_token_def is_whitespace_def ex_defs)
  from run have len: "1 < length (fst (renderTabs_layout (ex_panel ex_two 1 80 False)))"
    by simp
  have cmd: "command (Map_values (shells (ex_panel ex_two 1 80 False)) ! 1) = ''cargo watch''"
    by (simp add: ex_defs Map_values_def)
  from tab_label_form [of 1 "ex_panel ex_two 1 80 False"] len cmd
  have "hd (children (fst (renderTabs_layout (ex_panel ex_two 1 80 False)) ! 1))
      = '' 2: cargo ''"
    by (simp add: digit_char_def)
  with len tok show ?thesis by simp
qed

text \<open>
  A command whose first white space is a tab: the label carries the command up to its
  first space character, which here is the whole command, while the first
  whitespace-delimited token is \<^verbatim>\<open>ls\<close>.
\<close>

theorem tab_label_token_counterexample:
  "renderTabs_layout (ex_panel [(3, ex_tabbed)] 3 80 False)
     = ([shell_tab 3 ex_tabbed ('' 1: ls'' @ [CHR 0x09] @ ''-la '')], False)
   \<and> hd (children (shell_tab 3 ex_tabbed ('' 1: ls'' @ [CHR 0x09] @ ''-la '')))
       = '' 1: ls'' @ [CHR 0x09] @ ''-la ''
   \<and> spec_first_whitespace_token (command ex_tabbed) = ''ls''
   \<and> '' 1: ls'' @ [CHR 0x09] @ ''-la '' \<noteq> '' 1: ls ''"
  by (simp add: renderTabs_layout_def ex_defs Map_values_def availableWidth_def tab_label_def
      split_space_first_def TAB_DISPLAY_HORIZONTAL_PADDING_def RIGHT_TEXT_def
      pidTextEstimate_def digit_char_def shell_tab_def spec_first_whitespace_token_def
      is_whitespace_def)

section \<open>Tab layout: overflow\<close>

lemma renderTabs_loop_fits:
  assumes "N \<le> length rest"
    and "N = 0 \<or> cw + sum_list (take N (label_widths_from i rest)) \<le> avail"
    and "N < length rest \<longrightarrow> avail < cw + sum_list (take (Suc N) (label_widths_from i rest))"
  shows "renderTabs_loop a avail rest i cw tabs =
           (tabs @ shell_tabs_from a i (take N rest), N < length rest)"
  using assms
proof (induction rest arbitrary: N i cw tabs)
  case Nil
  then show ?case by (simp add: shell_tabs_from_def)
next
  case (Cons x xs)
  let ?w = "int (length (tab_label i x))"
  show ?case
  proof (cases N)
    case 0
    with Cons.prems(3) have "avail < cw + ?w"
      by (simp add: label_widths_from_Cons)
    with 0 show ?thesis by (simp add: shell_tabs_from_def Let_def)
  next
    case (Suc M)
    with Cons.prems(2)
    have le: "cw + ?w + sum_list (take M (label_widths_from (Suc i) xs)) \<le> avail"
      by (simp add: label_widths_from_Cons)
    moreover have "0 \<le> sum_list (take M (label_widths_from (Suc i) xs))"
      by (rule label_widths_from_nonneg)
    ultimately have fit: "\<not> avail < cw + ?w" by linarith
    have 1: "M \<le> length xs" using Cons.prems(1) Suc by simp
    have 2: "M = 0 \<or> cw + ?w + sum_list (take M (label_widths_from (Suc i) xs)) \<le> avail"
      using le by simp
    have 3: "M < length xs \<longrightarrow>
        avail < cw + ?w + sum_list (take (Suc M) (label_widths_from (Suc i) xs))"
      using Cons.prems(3) Suc by (simp add: label_widths_from_Cons add.assoc)
    from Cons.IH [OF 1 2 3, of "tabs @ [shell_tab a x (tab_label i x)]"] fit Suc
    show ?thesis by (simp add: Let_def shell_tabs_from_Cons)
  qed
qed

text \<open>
  C6. Let the label budget fit exactly the first \<open>N\<close> labels and no more: the widths of
  the first \<open>N\<close> labels sum to at most the budget, and, when there is a session after
  them, adding its label exceeds the budget. Then the layout emits exactly \<open>N\<close> tabs,
  those of the first \<open>N\<close> sessions in registry order, each with its label (a space, the
  1-based position, a colon and a space, the command up to its first space, a space),
  the \<^verbatim>\<open>(Exited)\<close> suffix of an exited session, and the style of the active or inactive
  session; it has overflowed exactly when there are more than \<open>N\<close> sessions; and the
  rendered row ends with the element \<^verbatim>\<open>" ... (Ctrl+O) "\<close> exactly then. With \<open>N\<close> the number
  of sessions this is the case of a width large enough for all of them: no overflow,
  every label, in registry order.
\<close>

theorem layout_fits_exactly:
  assumes "N \<le> length (Map_values (shells p))"
    and "N = 0 \<or>
         sum_list (take N
           (map (\<lambda>(j, shell).
                   int (length ('' '' @ string_of_nat (j + 1) @ '': ''
                          @ takeWhile (\<lambda>c. c \<noteq> CHR '' '') (command shell) @ '' '')))
              (enumerate 0 (Map_values (shells p)))))
           \<le> availableWidth (width p)"
    and "N < length (Map_values (shells p)) \<longrightarrow>
         availableWidth (width p)
           < sum_list (take (Suc N)
               (map (\<lambda>(j, shell).
                       int (length ('' '' @ string_of_nat (j + 1) @ '': ''
                              @ takeWhile (\<lambda>c. c \<noteq> CHR '' '') (command shell) @ '' '')))
                  (enumerate 0 (Map_values (shells p)))))"
  shows "renderTabs_layout p =
           (map (\<lambda>(j, shell).
                   \<lparr>elemKey = PidKey (pid shell),
                    color = (if pid shell = activePid p then ''white''
                             else if status shell = exited then ''red'' else ''gray''),
                    backgroundColor =
                      (if pid shell = activePid p
                       then Some (if status shell = exited then ''red'' else ''blue'')
                       else None),
                    bold = (pid shell = activePid p),
                    children =
                      ['' '' @ string_of_nat (j + 1) @ '': ''
                         @ takeWhile (\<lambda>c. c \<noteq> CHR '' '') (command shell) @ '' '',
                       if status shell = exited then ''(Exited)'' else []]\<rparr>)
              (enumerate 0 (take N (Map_values (shells p)))),
            N < length (Map_values (shells p)))
       \<and> length (fst (renderTabs_layout p)) = N
       \<and> renderTabs p =
           fst (renderTabs_layout p)
             @ (if N < length (Map_values (shells p))
                then [\<lparr>elemKey = NameKey ''overflow'', color = ''yellow'',
                       backgroundColor = None, bold = True,
                       children = ['' ... (Ctrl+O) '']\<rparr>]
                else [])"
proof -
  let ?xs = "Map_values (shells p)"
  have widths: "map (\<lambda>(j, shell).
                   int (length ('' '' @ string_of_nat (j + 1) @ '': ''
                          @ takeWhile (\<lambda>c. c \<noteq> CHR '' '') (command shell) @ '' '')))
              (enumerate 0 ?xs) = label_widths_from 0 ?xs"
    by (simp add: label_widths_from_def tab_label_def split_space_first_def)
  have run: "renderTabs_layout p =
      ([] @ shell_tabs_from (activePid p) 0 (take N ?xs), N < length ?xs)"
    unfolding renderTabs_layout_def
    by (rule renderTabs_loop_fits) (use assms widths in simp_all)
  have tabs: "shell_tabs_from (activePid p) 0 (take N ?xs) =
      map (\<lambda>(j, shell).
                   \<lparr>elemKey = PidKey (pid shell),
                    color = (if pid shell = activePid p then ''white''
                             else if status shell = exited then ''red'' else ''gray''),
                    backgroundColor =
                      (if pid shell = activePid p
                       then Some (if status shell = exited then ''red'' else ''blue'')
                       else None),
                    bold = (pid shell = activePid p),
                    children =
                      ['' '' @ string_of_nat (j + 1) @ '': ''
                         @ takeWhile (\<lambda>c. c \<noteq> CHR '' '') (command shell) @ '' '',
                       if status shell = exited then ''(Exited)'' else []]\<rparr>)
              (enumerate 0 (take N ?xs))"
    by (simp add: shell_tabs_from_def shell_tab_def tab_label_def split_space_first_def
        Let_def)
  from assms(1) have len: "length (shell_tabs_from (activePid p) 0 (take N ?xs)) = N"
    by (simp add: shell_tabs_from_def)
  have first: "renderTabs_layout p =
      (shell_tabs_from (activePid p) 0 (take N ?xs), N < length ?xs)"
    using run by simp
  have rendered: "renderTabs p =
      fst (renderTabs_layout p)
        @ (if N < length ?xs
           then [\<lparr>elemKey = NameKey ''overflow'', color = ''yellow'',
                  backgroundColor = None, bold = True,
                  children = ['' ... (Ctrl+O) '']\<rparr>]
           else [])"
    by (simp add: renderTabs_def first overflow_tab_def)
  have count: "length (fst (renderTabs_layout p)) = N"
    by (simp add: first len)
  have layout: "renderTabs_layout p =
      (map (\<lambda>(j, shell).
                   \<lparr>elemKey = PidKey (pid shell),
                    color = (if pid shell = activePid p then ''white''
                             else if status shell = exited then ''red'' else ''gray''),
                    backgroundColor =
                      (if pid shell = activePid p
                       then Some (if status shell = exited then ''red'' else ''blue'')
                       else None),
                    bold = (pid shell = activePid p),
                    children =
                      ['' '' @ string_of_nat (j + 1) @ '': ''
                         @ takeWhile (\<lambda>c. c \<noteq> CHR '' '') (command shell) @ '' '',
                       if status shell = exited then ''(Exited)'' else []]\<rparr>)
              (enumerate 0 (take N ?xs)),
       N < length ?xs)"
    by (simp only: first tabs)
  show ?thesis
    by (intro conjI) (rule layout, rule count, rule rendered)
qed

text \<open>
  Three sessions at width 80, a budget of 26 cells for labels of widths 8, 10 and 11:
  two tabs and the overflow affordance. Two sessions at the same width: both tabs, no
  overflow.
\<close>

theorem layout_fits_exactly_witness:
  "availableWidth 80 = 26
   \<and> map (\<lambda>(j, shell).
            int (length ('' '' @ string_of_nat (j + 1) @ '': ''
                   @ takeWhile (\<lambda>c. c \<noteq> CHR '' '') (command shell) @ '' '')))
       (enumerate 0 (Map_values ex_three)) = [8, 10, 11]
   \<and> renderTabs (ex_panel ex_three 1 80 False)
       = [\<lparr>elemKey = PidKey 1, color = ''white'', backgroundColor = Some ''blue'',
            bold = True, children = ['' 1: npm '', []]\<rparr>,
          \<lparr>elemKey = PidKey 2, color = ''red'', backgroundColor = None,
            bold = False, children = ['' 2: cargo '', ''(Exited)'']\<rparr>,
          \<lparr>elemKey = NameKey ''overflow'', color = ''yellow'', backgroundColor = None,
            bold = True, children = ['' ... (Ctrl+O) '']\<rparr>]
   \<and> snd (renderTabs_layout (ex_panel ex_three 1 80 False))
   \<and> renderTabs (ex_panel ex_two 1 80 False)
       = [\<lparr>elemKey = PidKey 1, color = ''white'', backgroundColor = Some ''blue'',
            bold = True, children = ['' 1: npm '', []]\<rparr>,
          \<lparr>elemKey = PidKey 2, color = ''red'', backgroundColor = None,
            bold = False, children = ['' 2: cargo '', ''(Exited)'']\<rparr>]
   \<and> \<not> snd (renderTabs_layout (ex_panel ex_two 1 80 False))"
proof -
  have avail: "availableWidth 80 = 26"
    by (simp add: availableWidth_def TAB_DISPLAY_HORIZONTAL_PADDING_def RIGHT_TEXT_def
        pidTextEstimate_def)
  have widths: "map (\<lambda>(j, shell).
            int (length ('' '' @ string_of_nat (j + 1) @ '': ''
                   @ takeWhile (\<lambda>c. c \<noteq> CHR '' '') (command shell) @ '' '')))
       (enumerate 0 (Map_values ex_three)) = [8, 10, 11]"
    by (simp add: Map_values_def ex_defs digit_char_def)
  have widths2: "map (\<lambda>(j, shell).
            int (length ('' '' @ string_of_nat (j + 1) @ '': ''
                   @ takeWhile (\<lambda>c. c \<noteq> CHR '' '') (command shell) @ '' '')))
       (enumerate 0 (Map_values ex_two)) = [8, 10]"
    by (simp add: Map_values_def ex_defs digit_char_def)
  have three: "Map_values (shells (ex_panel ex_three 1 80 False))
      = [ex_build, ex_watch, ex_tabbed]"
    by (simp add: ex_panel_def ex_three_def Map_values_def)
  have two: "Map_values (shells (ex_panel ex_two 1 80 False)) = [ex_build, ex_watch]"
    by (simp add: ex_panel_def ex_two_def Map_values_def)
  have w: "width (ex_panel m a 80 b) = 80" and a: "activePid (ex_panel m 1 v b) = 1"
    for m a b v
    by (simp_all add: ex_panel_def)
  have vals: "Map_values ex_three = [ex_build, ex_watch, ex_tabbed]"
    "Map_values ex_two = [ex_build, ex_watch]"
    by (simp_all add: ex_three_def ex_two_def Map_values_def)
  have shell_fields:
    "pid ex_build = 1" "pid ex_watch = 2" "status ex_build = running"
    "status ex_watch = exited" "command ex_build = ''npm run build''"
    "command ex_watch = ''cargo watch''"
    by (simp_all add: ex_build_def ex_watch_def)
  from layout_fits_exactly [of 2 "ex_panel ex_three 1 80 False"]
  have r3: "renderTabs (ex_panel ex_three 1 80 False)
       = [\<lparr>elemKey = PidKey 1, color = ''white'', backgroundColor = Some ''blue'',
            bold = True, children = ['' 1: npm '', []]\<rparr>,
          \<lparr>elemKey = PidKey 2, color = ''red'', backgroundColor = None,
            bold = False, children = ['' 2: cargo '', ''(Exited)'']\<rparr>,
          \<lparr>elemKey = NameKey ''overflow'', color = ''yellow'', backgroundColor = None,
            bold = True, children = ['' ... (Ctrl+O) '']\<rparr>]
      \<and> snd (renderTabs_layout (ex_panel ex_three 1 80 False))"
    using widths [unfolded vals] avail three
    by (simp add: w a shell_fields digit_char_def)
  from layout_fits_exactly [of 2 "ex_panel ex_two 1 80 False"]
  have r2: "renderTabs (ex_panel ex_two 1 80 False)
       = [\<lparr>elemKey = PidKey 1, color = ''white'', backgroundColor = Some ''blue'',
            bold = True, children = ['' 1: npm '', []]\<rparr>,
          \<lparr>elemKey = PidKey 2, color = ''red'', backgroundColor = None,
            bold = False, children = ['' 2: cargo '', ''(Exited)'']\<rparr>]
      \<and> \<not> snd (renderTabs_layout (ex_panel ex_two 1 80 False))"
    using widths2 [unfolded vals] avail two
    by (simp add: w a shell_fields digit_char_def)
  show ?thesis
    by (intro conjI)
      (rule avail, rule widths, rule conjunct1 [OF r3], rule conjunct2 [OF r3],
        rule conjunct1 [OF r2], rule conjunct2 [OF r2])
qed

section \<open>Navigation in the open picker\<close>

text \<open>
  C7, as amended. While the picker is open, the active identifier names a shell of the
  registry (so the registry is not empty) and the selection index is in range, Up and
  Down move the index by true modulo arithmetic on the number of sessions: Up yields
  \<open>(index - 1) mod count\<close>, which is the last index from 0; Down yields
  \<open>(index + 1) mod count\<close>, which is 0 from the last index; the result is in range
  again, and no call is issued. If the active identifier is not in the registry, and
  in particular if the registry is empty, every key, so navigation and commit too,
  changes nothing and issues no call.
\<close>

theorem navigation_wraps:
  "(activeShell p \<noteq> None \<and> isListOpenProp p \<and> 0 \<le> idx \<and> idx < Map_size (shells p) \<longrightarrow>
      (name k = ''up'' \<longrightarrow>
         handleKeypress toggleBackgroundShell p idx k = ((idx - 1) mod Map_size (shells p), [])
         \<and> (idx = 0 \<longrightarrow>
              fst (handleKeypress toggleBackgroundShell p idx k) = Map_size (shells p) - 1))
    \<and> (name k = ''down'' \<longrightarrow>
         handleKeypress toggleBackgroundShell p idx k = ((idx + 1) mod Map_size (shells p), [])
         \<and> (idx = Map_size (shells p) - 1 \<longrightarrow>
              fst (handleKeypress toggleBackgroundShell p idx k) = 0))
    \<and> (name k = ''up'' \<or> name k = ''down'' \<longrightarrow>
         0 \<le> fst (handleKeypress toggleBackgroundShell p idx k)
         \<and> fst (handleKeypress toggleBackgroundShell p idx k) < Map_size (shells p)))
   \<and> (activeShell p = None \<longrightarrow> handleKeypress toggleBackgroundShell p idx k = (idx, []))
   \<and> (shells p = [] \<longrightarrow> activeShell p = None)"
proof -
  let ?n = "Map_size (shells p)"
  let ?h = "handleKeypress toggleBackgroundShell p idx k"
  have none: "?h = (idx, [])" if "activeShell p = None"
    using that by (simp add: handleKeypress_def)
  have empty: "activeShell p = None" if "shells p = []"
    using that by (simp add: activeShell_def Map_get_def)
  {
    assume a: "activeShell p \<noteq> None" and o: "isListOpenProp p"
      and r: "0 \<le> idx" "idx < ?n"
    from a obtain sh where s: "activeShell p = Some sh" by auto
    have n: "0 < ?n" using r by simp
    have up: "?h = ((idx - 1) mod ?n, [])" if "name k = ''up''"
    proof -
      have "js_rem (idx - 1 + ?n) ?n = (idx - 1 + ?n) mod ?n"
        using r n by (simp add: js_rem_nonneg)
      also have "\<dots> = (idx - 1) mod ?n" by simp
      finally show ?thesis using that s o
        by (simp add: handleKeypress_def Let_def Map_size_def Map_keys_def)
    qed
    have down: "?h = ((idx + 1) mod ?n, [])" if "name k = ''down''"
    proof -
      have "js_rem (idx + 1) ?n = (idx + 1) mod ?n"
        using r n by (simp add: js_rem_nonneg)
      then show ?thesis using that s o
        by (simp add: handleKeypress_def Let_def Map_size_def Map_keys_def)
    qed
    have up0: "(idx - 1) mod ?n = ?n - 1" if "idx = 0"
      using that n by (simp add: zmod_minus1)
    have downl: "(idx + 1) mod ?n = 0" if "idx = ?n - 1"
      using that by simp
    have rng1: "0 \<le> (idx - 1) mod ?n \<and> (idx - 1) mod ?n < ?n" using n by simp
    have rng2: "0 \<le> (idx + 1) mod ?n \<and> (idx + 1) mod ?n < ?n" using n by simp
    note up down up0 downl rng1 rng2
  }
  with none empty show ?thesis by auto
qed

text \<open>
  Three sessions, the first active: Down from the last index 2 gives 0, Up from 0 gives
  2. An empty registry: Down and Return do nothing.
\<close>

theorem navigation_wraps_witness:
  "activeShell (ex_panel ex_three 1 80 True) \<noteq> None
   \<and> isListOpenProp (ex_panel ex_three 1 80 True)
   \<and> Map_size (shells (ex_panel ex_three 1 80 True)) = 3
   \<and> name key_down = ''down'' \<and> name key_up = ''up''
   \<and> handleKeypress toggle_ctrl_b (ex_panel ex_three 1 80 True) 2 key_down = (0, [])
   \<and> handleKeypress toggle_ctrl_b (ex_panel ex_three 1 80 True) 0 key_up = (2, [])
   \<and> shells (ex_panel [] 1 80 True) = []
   \<and> handleKeypress toggle_ctrl_b (ex_panel [] 1 80 True) 0 key_down = (0, [])
   \<and> handleKeypress toggle_ctrl_b (ex_panel [] 1 80 True) 0 key_return = (0, [])"
  using navigation_wraps [of "ex_panel ex_three 1 80 True" 2 key_down toggle_ctrl_b]
    navigation_wraps [of "ex_panel ex_three 1 80 True" 0 key_up toggle_ctrl_b]
    navigation_wraps [of "ex_panel [] 1 80 True" 0 key_down toggle_ctrl_b]
    navigation_wraps [of "ex_panel [] 1 80 True" 0 key_return toggle_ctrl_b]
  by (simp add: ex_defs Map_defs activeShell_def)

text \<open>
  The picker is open over two sessions and the selection is on the last of them, but
  the active identifier 7 is stale: Down leaves the index at 1 instead of wrapping to 0,
  for the handler and for the focused panel alike.
\<close>

theorem navigation_stale_active_counterexample:
  "isListOpenProp (ex_panel ex_two 7 80 True)
   \<and> shells (ex_panel ex_two 7 80 True) \<noteq> []
   \<and> Map_size (shells (ex_panel ex_two 7 80 True)) = 2
   \<and> name key_down = ''down''
   \<and> handleKeypress toggle_ctrl_b (ex_panel ex_two 7 80 True) 1 key_down = (1, [])
   \<and> useKeypress toggle_ctrl_b (ex_panel ex_two 7 80 True) 1 key_down = (1, [])"
  by (simp add: ex_defs Map_defs activeShell_def handleKeypress_def useKeypress_def
      isActive_def)

section \<open>Other keys in the open picker\<close>

text \<open>
  C8. While the picker is open, a key that is not named \<^verbatim>\<open>up\<close>, \<^verbatim>\<open>down\<close>, \<^verbatim>\<open>return\<close>,
  \<^verbatim>\<open>enter\<close> or \<^verbatim>\<open>escape\<close> and is not Ctrl+O is swallowed: the handler, and the panel as a
  whole, leave the selection index as it is and issue no call, so nothing is written to
  a pseudo-terminal and neither the picker nor the active identifier changes.
\<close>

theorem open_other_keys_swallowed:
  assumes "isListOpenProp p"
    and "name k \<notin> {''up'', ''down'', ''return'', ''enter'', ''escape''}"
    and "\<not> (ctrl k \<and> name k = ''o'')"
  shows "handleKeypress toggleBackgroundShell p idx k = (idx, [])
       \<and> useKeypress toggleBackgroundShell p idx k = (idx, [])"
  using assms
  by (auto simp: handleKeypress_def useKeypress_def Let_def split: option.splits)

theorem open_other_keys_swallowed_witness:
  "isListOpenProp (ex_panel ex_two 1 80 True)
   \<and> name key_x \<notin> {''up'', ''down'', ''return'', ''enter'', ''escape''}
   \<and> \<not> (ctrl key_x \<and> name key_x = ''o'')
   \<and> handleKeypress toggle_ctrl_b (ex_panel ex_two 1 80 True) 1 key_x = (1, [])
   \<and> useKeypress toggle_ctrl_b (ex_panel ex_two 1 80 True) 1 key_x = (1, [])"
  using open_other_keys_swallowed [of "ex_panel ex_two 1 80 True" key_x toggle_ctrl_b 1]
  by (simp add: ex_defs)

section \<open>Geometry\<close>

text \<open>
  C9, as amended. In any sequence of renders, the resize effect runs after a render
  exactly when its active identifier, its width, its height or the identity of the
  \<^verbatim>\<open>Map\<close> object it was given differs from that of the render before. When it runs and
  the active identifier is a key of the registry, it issues exactly one resize call, for
  the active identifier, with \<open>max 1 (width - 4)\<close> columns and \<open>max 1 (height - 3)\<close> rows;
  when the active identifier is not a key of the registry it issues no call. A
  membership change reaches the effect as a new \<^verbatim>\<open>Map\<close> object; a \<^verbatim>\<open>Map\<close> mutated in
  place, with nothing else changed, triggers no resize.
\<close>

theorem resize_on_change:
  assumes "Suc i < length ps"
  shows "useEffect_trace resize_deps resize_effect None ps ! Suc i =
           (if activePid (ps ! Suc i) \<noteq> activePid (ps ! i)
               \<or> width (ps ! Suc i) \<noteq> width (ps ! i)
               \<or> height (ps ! Suc i) \<noteq> height (ps ! i)
               \<or> shellsObjectId (ps ! Suc i) \<noteq> shellsObjectId (ps ! i)
            then
              (if activePid (ps ! Suc i) \<in> fst ` set (shells (ps ! Suc i))
               then [ResizePty (activePid (ps ! Suc i))
                       (max 1 (width (ps ! Suc i) - 4)) (max 1 (height (ps ! Suc i) - 3))]
               else [])
            else [])"
  using assms
  by (auto simp: useEffect_trace_Suc resize_effect_def resize_deps_def Map_has_def
      TAB_DISPLAY_HORIZONTAL_PADDING_def CONTENT_PADDING_X_def)

text \<open>
  A panel over two sessions is widened from 80 to 100 columns, made 30 rows high, given
  a new \<^verbatim>\<open>Map\<close> object with the same entries, rendered once more with nothing changed,
  and then its active identifier goes stale: a resize after each of the first three
  changes, none after the unchanged render, none for the stale identifier.
\<close>

theorem resize_on_change_witness:
  "length ex_renders = 6
   \<and> useEffect_trace resize_deps resize_effect None ex_renders ! Suc 0 = [ResizePty 1 96 21]
   \<and> useEffect_trace resize_deps resize_effect None ex_renders ! Suc 1 = [ResizePty 1 96 27]
   \<and> useEffect_trace resize_deps resize_effect None ex_renders ! Suc 2 = [ResizePty 1 96 27]
   \<and> useEffect_trace resize_deps resize_effect None ex_renders ! Suc 3 = []
   \<and> useEffect_trace resize_deps resize_effect None ex_renders ! Suc 4 = []"
  using resize_on_change [of 0 ex_renders] resize_on_change [of 1 ex_renders]
    resize_on_change [of 2 ex_renders] resize_on_change [of 3 ex_renders]
    resize_on_change [of 4 ex_renders]
  by (simp add: ex_renders_def ex_defs)

text \<open>
  The registry of one session gains a second one by mutation of the same \<^verbatim>\<open>Map\<close> object:
  its keys change from 1 to 1 and 2, the active identifier 1 is a key, and the render
  that sees the new membership issues no resize.
\<close>

theorem resize_in_place_mutation_counterexample:
  "map fst (shells (ex_panel ex_one 1 80 False)) = [1]
   \<and> map fst (shells ((ex_panel ex_two 1 80 False)\<lparr>shellsObjectId := 1\<rparr>)) = [1, 2]
   \<and> shellsObjectId (ex_panel ex_one 1 80 False)
       = shellsObjectId ((ex_panel ex_two 1 80 False)\<lparr>shellsObjectId := 1\<rparr>)
   \<and> Map_has (shells ((ex_panel ex_two 1 80 False)\<lparr>shellsObjectId := 1\<rparr>))
         (activePid ((ex_panel ex_two 1 80 False)\<lparr>shellsObjectId := 1\<rparr>))
   \<and> useEffect_trace resize_deps resize_effect None
        [ex_panel ex_one 1 80 False, (ex_panel ex_two 1 80 False)\<lparr>shellsObjectId := 1\<rparr>]
       = [[ResizePty 1 76 21], []]"
  by (simp add: resize_effect_def resize_deps_def ex_defs Map_defs
      TAB_DISPLAY_HORIZONTAL_PADDING_def CONTENT_PADDING_X_def)

section \<open>Commit with a dangling selection\<close>

text \<open>
  C10. A commit occurs when the handler, which runs for a focused panel whose active
  shell is in the registry, receives Return, Enter or Ctrl+O while the picker is open.
  If the selection index then has no session, because it is at or past the number of
  sessions, the commit asks for the picker to be closed and for nothing else: no active
  identifier is set, and the index stays as it is.
\<close>

theorem commit_out_of_range:
  assumes "isActive p" and "isListOpenProp p"
    and "name k = ''return'' \<or> name k = ''enter'' \<or> (ctrl k \<and> name k = ''o'')"
    and "Map_size (shells p) \<le> idx"
  shows "useKeypress toggleBackgroundShell p idx k = (idx, [SetIsBackgroundShellListOpen False])"
  using assms
  by (auto simp: handleKeypress_def useKeypress_def isActive_def Let_def commit_selection_def
      js_index_def Map_size_def Map_keys_def split: option.splits)

theorem commit_out_of_range_witness:
  "isActive (ex_panel ex_two 1 80 True) \<and> isListOpenProp (ex_panel ex_two 1 80 True)
   \<and> name key_enter = ''enter''
   \<and> Map_size (shells (ex_panel ex_two 1 80 True)) \<le> 2
   \<and> useKeypress toggle_ctrl_b (ex_panel ex_two 1 80 True) 2 key_enter
       = (2, [SetIsBackgroundShellListOpen False])"
  using commit_out_of_range [of "ex_panel ex_two 1 80 True" key_enter 2 toggle_ctrl_b]
  by (simp add: ex_defs Map_defs activeShell_def isActive_def)

end
